theory Spec2Isabelle
  imports Main
begin

section \<open>Character classification (server/src/parser/characters.ts)\<close>

text \<open>
  Code points are the numbers the TypeScript passes around (\<open>ch: number\<close>, a UTF-16
  code unit read by \<open>charCodeAt\<close>); they are modelled as natural numbers. The members
  of the enum \<open>Char\<close> that the classifier reads are definitions of their own.
\<close>

type_synonym codepoint = nat

definition Char_Tab :: codepoint where "Char_Tab = 0x09"
definition Char_LineFeed :: codepoint where "Char_LineFeed = 0x0a"
definition Char_FormFeed :: codepoint where "Char_FormFeed = 0x0c"
definition Char_CarriageReturn :: codepoint where "Char_CarriageReturn = 0x0d"
definition Char_Space :: codepoint where "Char_Space = 0x20"
definition Char_0 :: codepoint where "Char_0 = 0x30"
definition Char_1 :: codepoint where "Char_1 = 0x31"
definition Char_7 :: codepoint where "Char_7 = 0x37"
definition Char_9 :: codepoint where "Char_9 = 0x39"
definition Char_A :: codepoint where "Char_A = 0x41"
definition Char_F :: codepoint where "Char_F = 0x46"
definition Char_Underscore :: codepoint where "Char_Underscore = 0x5f"
definition Char_a :: codepoint where "Char_a = 0x61"
definition Char_f :: codepoint where "Char_f = 0x66"

lemmas Char_defs = Char_Tab_def Char_LineFeed_def Char_FormFeed_def Char_CarriageReturn_def
  Char_Space_def Char_0_def Char_1_def Char_7_def Char_9_def Char_A_def Char_F_def
  Char_Underscore_def Char_a_def Char_f_def

text \<open>The "other space characters" of the enum, from NonBreakingSpace to Ogham.\<close>

definition otherSpaceCharacters :: "codepoint list" where
  "otherSpaceCharacters =
     [0xa0, 0x2000, 0x2001, 0x2002, 0x2003, 0x2004, 0x2005, 0x2006, 0x2007, 0x2008,
      0x2009, 0x200a, 0x200b, 0x202f, 0x3000, 0x205f, 0x1680]"

definition isWhiteSpace :: "codepoint \<Rightarrow> bool" where
  "isWhiteSpace ch = (ch = Char_Space \<or> ch = Char_Tab \<or> ch = Char_FormFeed)"

definition isLineBreak :: "codepoint \<Rightarrow> bool" where
  "isLineBreak ch = (ch = Char_CarriageReturn \<or> ch = Char_LineFeed)"

definition isNumber :: "codepoint \<Rightarrow> bool" where
  "isNumber ch = (ch \<ge> Char_0 \<and> ch \<le> Char_9 \<or> ch = Char_Underscore)"

definition isDecimal :: "codepoint \<Rightarrow> bool" where
  "isDecimal ch = (ch \<ge> Char_0 \<and> ch \<le> Char_9 \<or> ch = Char_Underscore)"

definition isHex :: "codepoint \<Rightarrow> bool" where
  "isHex ch = (isDecimal ch \<or> (ch \<ge> Char_a \<and> ch \<le> Char_f) \<or> (ch \<ge> Char_A \<and> ch \<le> Char_F)
               \<or> ch = Char_Underscore)"

definition isOctal :: "codepoint \<Rightarrow> bool" where
  "isOctal ch = (ch \<ge> Char_0 \<and> ch \<le> Char_7 \<or> ch = Char_Underscore)"

definition isBinary :: "codepoint \<Rightarrow> bool" where
  "isBinary ch = (ch = Char_0 \<or> ch = Char_1 \<or> ch = Char_Underscore)"

subsection \<open>The identifier tables\<close>

datatype CharCategory = NotIdentifierChar | StartIdentifierChar | IdentifierChar

text \<open>
  An entry of a \<open>UnicodeRangeTable\<close> is a single code point or a pair
  \<open>[rangeStart, rangeEnd]\<close> (the branch on \<open>Array.isArray(entry)\<close>).
\<close>

datatype UnicodeRangeEntry = Single codepoint | Range codepoint codepoint

type_synonym UnicodeRangeTable = "UnicodeRangeEntry list"

text \<open>
  The category tables \<open>unicodeLu\<close>, ..., \<open>unicodePc\<close> live in unicode.ts, which is not
  among the sources; the functions that read them take them as a parameter.
\<close>

record UnicodeTables =
  unicodeLu :: UnicodeRangeTable
  unicodeLl :: UnicodeRangeTable
  unicodeLt :: UnicodeRangeTable
  unicodeLo :: UnicodeRangeTable
  unicodeLm :: UnicodeRangeTable
  unicodeNl :: UnicodeRangeTable
  unicodeMn :: UnicodeRangeTable
  unicodeMc :: UnicodeRangeTable
  unicodeNd :: UnicodeRangeTable
  unicodePc :: UnicodeRangeTable

definition identifierCharFastTableSize :: nat where
  "identifierCharFastTableSize = 256"

text \<open>
  The module's mutable state: the fast table (an array of 256 slots, empty until it is
  filled), the sparse map and the flag of the lazy initialisation. A slot or key that was
  never written reads as \<open>undefined\<close> in the source and as \<open>None\<close> here.
\<close>

record CharTables =
  identifierCharFastTable :: "nat \<rightharpoonup> CharCategory"
  identifierCharMap :: "nat \<rightharpoonup> CharCategory"
  identifierCharMapInitialized :: bool

definition specialStartIdentifierChars :: UnicodeRangeTable where
  "specialStartIdentifierChars =
     [Single Char_Underscore, Single 0x1885, Single 0x1886, Single 0x2118, Single 0x212E,
      Single 0x309B, Single 0x309C]"

definition startIdentifierCharRanges :: "UnicodeTables \<Rightarrow> UnicodeRangeTable list" where
  "startIdentifierCharRanges u =
     [specialStartIdentifierChars, unicodeLu u, unicodeLl u, unicodeLt u, unicodeLo u,
      unicodeLm u, unicodeNl u]"

definition specialIdentifierChars :: UnicodeRangeTable where
  "specialIdentifierChars =
     [Single 0x00B7, Single 0x0387, Single 0x1369, Single 0x136A, Single 0x136B,
      Single 0x136C, Single 0x136D, Single 0x136E, Single 0x136F, Single 0x1370,
      Single 0x1371, Single 0x19DA]"

definition identifierCharRanges :: "UnicodeTables \<Rightarrow> UnicodeRangeTable list" where
  "identifierCharRanges u =
     [specialIdentifierChars, unicodeMn u, unicodeMc u, unicodeNd u, unicodePc u]"

text \<open>The body of the inner loop: one code point goes to the fast table or to the map.\<close>

definition setCategory :: "CharCategory \<Rightarrow> nat \<Rightarrow> CharTables \<Rightarrow> CharTables" where
  "setCategory category i t =
     (if i < identifierCharFastTableSize
      then t\<lparr>identifierCharFastTable := (identifierCharFastTable t)(i \<mapsto> category)\<rparr>
      else t\<lparr>identifierCharMap := (identifierCharMap t)(i \<mapsto> category)\<rparr>)"

text \<open>\<open>for (let i = rangeStart; i <= rangeEnd; i++)\<close>\<close>

definition fillRange :: "nat \<Rightarrow> nat \<Rightarrow> CharCategory \<Rightarrow> CharTables \<Rightarrow> CharTables" where
  "fillRange rangeStart rangeEnd category t =
     fold (setCategory category) [rangeStart ..< Suc rangeEnd] t"

fun entryStart :: "UnicodeRangeEntry \<Rightarrow> nat" where
  "entryStart (Range a b) = a"
| "entryStart (Single a) = a"

fun entryEnd :: "UnicodeRangeEntry \<Rightarrow> nat" where
  "entryEnd (Range a b) = b"
| "entryEnd (Single a) = a"

text \<open>
  \<open>_buildIdentifierLookupTableFromUnicodeRangeTable\<close>: the entry is written first, and
  only then does \<open>fastTableOnly\<close> leave the loop, so the first entry at or beyond 256
  is still written to the map.
\<close>

fun buildIdentifierLookupTableFromUnicodeRangeTable ::
  "UnicodeRangeTable \<Rightarrow> CharCategory \<Rightarrow> bool \<Rightarrow> CharTables \<Rightarrow> CharTables" where
  "buildIdentifierLookupTableFromUnicodeRangeTable [] category fastTableOnly t = t"
| "buildIdentifierLookupTableFromUnicodeRangeTable (entry # rest) category fastTableOnly t =
     (let t' = fillRange (entryStart entry) (entryEnd entry) category t
      in if fastTableOnly \<and> entryStart entry \<ge> identifierCharFastTableSize then t'
         else buildIdentifierLookupTableFromUnicodeRangeTable rest category fastTableOnly t')"

text \<open>\<open>_identifierCharFastTable.fill(CharCategory.NotIdentifierChar)\<close>\<close>

definition fillFastTable :: "CharTables \<Rightarrow> CharTables" where
  "fillFastTable t =
     t\<lparr>identifierCharFastTable :=
         (\<lambda>i. if i < identifierCharFastTableSize then Some NotIdentifierChar
              else identifierCharFastTable t i)\<rparr>"

definition buildIdentifierLookupTable :: "UnicodeTables \<Rightarrow> bool \<Rightarrow> CharTables \<Rightarrow> CharTables" where
  "buildIdentifierLookupTable u fastTableOnly t =
     fold (\<lambda>table. buildIdentifierLookupTableFromUnicodeRangeTable table StartIdentifierChar
                      fastTableOnly)
       (startIdentifierCharRanges u)
       (fold (\<lambda>table. buildIdentifierLookupTableFromUnicodeRangeTable table IdentifierChar
                         fastTableOnly)
          (identifierCharRanges u) (fillFastTable t))"

text \<open>
  The state once the module is loaded: the declarations, then the call
  \<open>_buildIdentifierLookupTable(true)\<close> of the last line.
\<close>

definition moduleLoaded :: "UnicodeTables \<Rightarrow> CharTables" where
  "moduleLoaded u =
     buildIdentifierLookupTable u True
       \<lparr>identifierCharFastTable = Map.empty, identifierCharMap = Map.empty,
        identifierCharMapInitialized = False\<rparr>"

text \<open>\<open>isIdentifierStartChar\<close> may initialise the map: it returns the new state too.\<close>

definition isIdentifierStartChar ::
  "UnicodeTables \<Rightarrow> CharTables \<Rightarrow> codepoint \<Rightarrow> bool \<times> CharTables" where
  "isIdentifierStartChar u t ch =
     (if ch < identifierCharFastTableSize
      then (identifierCharFastTable t ch = Some StartIdentifierChar, t)
      else let t' = (if \<not> identifierCharMapInitialized t
                     then (buildIdentifierLookupTable u False t)
                            \<lparr>identifierCharMapInitialized := True\<rparr>
                     else t)
           in (identifierCharMap t' ch = Some StartIdentifierChar, t'))"

text \<open>\<open>isIdentifierChar\<close> reads the tables as they are.\<close>

definition isIdentifierChar :: "CharTables \<Rightarrow> codepoint \<Rightarrow> bool" where
  "isIdentifierChar t ch =
     (if ch < identifierCharFastTableSize
      then identifierCharFastTable t ch = Some StartIdentifierChar
           \<or> identifierCharFastTable t ch = Some IdentifierChar
      else identifierCharMap t ch = Some StartIdentifierChar
           \<or> identifierCharMap t ch = Some IdentifierChar)"

text \<open>Whether an entry, or a table, covers a code point.\<close>

definition entryCovers :: "UnicodeRangeEntry \<Rightarrow> codepoint \<Rightarrow> bool" where
  "entryCovers entry ch = (entryStart entry \<le> ch \<and> ch \<le> entryEnd entry)"

definition tableCovers :: "UnicodeRangeTable \<Rightarrow> codepoint \<Rightarrow> bool" where
  "tableCovers table ch = list_ex (\<lambda>entry. entryCovers entry ch) table"

text \<open>The ten category tables of unicode.ts.\<close>

definition unicodeCategoryTables :: "UnicodeTables \<Rightarrow> UnicodeRangeTable list" where
  "unicodeCategoryTables u =
     [unicodeLu u, unicodeLl u, unicodeLt u, unicodeLo u, unicodeLm u, unicodeNl u,
      unicodeMn u, unicodeMc u, unicodeNd u, unicodePc u]"

text \<open>
  A small instance of the tables, for evaluation: the leading entries of each of the ten
  categories.
\<close>

definition sampleUnicodeTables :: UnicodeTables where
  "sampleUnicodeTables =
     \<lparr>unicodeLu = [Range 0x41 0x5A, Range 0xC0 0xD6, Range 0xD8 0xDE, Single 0x100, Single 0x102],
      unicodeLl = [Range 0x61 0x7A, Single 0xB5, Range 0xDF 0xF6, Range 0xF8 0xFF, Single 0x101],
      unicodeLt = [Single 0x1C5, Single 0x1C8],
      unicodeLo = [Single 0xAA, Single 0xBA, Single 0x1BB, Range 0x1C0 0x1C3],
      unicodeLm = [Range 0x2B0 0x2C1, Range 0x2C6 0x2D1],
      unicodeNl = [Range 0x16EE 0x16F0, Range 0x2160 0x2182],
      unicodeMn = [Range 0x300 0x36F, Range 0x483 0x487],
      unicodeMc = [Single 0x903, Single 0x93B],
      unicodeNd = [Range 0x30 0x39, Range 0x660 0x669],
      unicodePc = [Single 0x5F, Range 0x203F 0x2040]\<rparr>"


section \<open>Tokens\<close>

text \<open>
  The tokenizer (tokenizer.ts), its token types (tokenizerTypes.ts) and the string
  unescaper (stringTokenUtils.ts) are not among the sources: only their unit tests
  (tokenizer.test.ts) and their caller (parser.ts) are. The definitions of this and the
  following sections are modelled from the specification, and from the unit tests where
  they pin a behaviour down.
\<close>

type_synonym str = "codepoint list"

text \<open>An ASCII string literal as the list of its code units.\<close>

definition codes :: "string \<Rightarrow> str" where
  "codes s = map of_char s"

definition Char_DoubleQuote :: codepoint where "Char_DoubleQuote = 0x22"
definition Char_Hash :: codepoint where "Char_Hash = 0x23"
definition Char_SingleQuote :: codepoint where "Char_SingleQuote = 0x27"
definition Char_OpenParenthesis :: codepoint where "Char_OpenParenthesis = 0x28"
definition Char_CloseParenthesis :: codepoint where "Char_CloseParenthesis = 0x29"
definition Char_Plus :: codepoint where "Char_Plus = 0x2b"
definition Char_Comma :: codepoint where "Char_Comma = 0x2c"
definition Char_Hyphen :: codepoint where "Char_Hyphen = 0x2d"
definition Char_Period :: codepoint where "Char_Period = 0x2e"
definition Char_Colon :: codepoint where "Char_Colon = 0x3a"
definition Char_Semicolon :: codepoint where "Char_Semicolon = 0x3b"
definition Char_Equal :: codepoint where "Char_Equal = 0x3d"
definition Char_Greater :: codepoint where "Char_Greater = 0x3e"
definition Char_Z :: codepoint where "Char_Z = 0x5a"
definition Char_OpenBracket :: codepoint where "Char_OpenBracket = 0x5b"
definition Char_Backslash :: codepoint where "Char_Backslash = 0x5c"
definition Char_CloseBracket :: codepoint where "Char_CloseBracket = 0x5d"
definition Char_OpenBrace :: codepoint where "Char_OpenBrace = 0x7b"
definition Char_CloseBrace :: codepoint where "Char_CloseBrace = 0x7d"

lemmas Char_defs2 = Char_DoubleQuote_def Char_Hash_def Char_SingleQuote_def
  Char_OpenParenthesis_def Char_CloseParenthesis_def Char_Plus_def Char_Comma_def
  Char_Hyphen_def Char_Period_def Char_Colon_def Char_Semicolon_def Char_Equal_def
  Char_Greater_def Char_Z_def Char_OpenBracket_def Char_Backslash_def
  Char_CloseBracket_def Char_OpenBrace_def Char_CloseBrace_def

datatype NewLineType = CarriageReturn | LineFeed | CarriageReturnLineFeed | Implied

text \<open>
  Modelled from the spec: the operator types the scanner emits, one per entry of the
  spec's operator list (the names of parser.ts and of the unit tests; the operators that
  only the parser builds from keywords are left out).
\<close>

datatype OperatorType = Add | AddEqual | Assign | BitwiseAnd | BitwiseAndEqual | BitwiseInvert
  | BitwiseOr | BitwiseOrEqual | BitwiseXor | BitwiseXorEqual | Divide | DivideEqual | Equals
  | FloorDivide | FloorDivideEqual | GreaterThan | GreaterThanOrEqual | LeftShift
  | LeftShiftEqual | LessThan | LessThanOrEqual | MatrixMultiply | MatrixMultiplyEqual | Mod
  | ModEqual | Multiply | MultiplyEqual | NotEquals | Power | PowerEqual | RightShift
  | RightShiftEqual | Subtract | SubtractEqual | Walrus

text \<open>
  Modelled from the spec: the keyword types, one per keyword of the spec's keyword table
  (the members of \<open>KeywordType\<close> that parser.ts names; \<open>False\<close>, \<open>If\<close>, \<open>None\<close>, \<open>Not\<close>
  and \<open>True\<close> carry a suffix, since HOL has constants of these names).
\<close>

datatype KeywordType = And | As | Assert | Async | Await | Break | Class | Continue | Debug
  | Def | Del | Elif | Else | Except | False_kw | Finally | For | From | Global | If_kw
  | Import | In | Is | Lambda | None_kw | Nonlocal | Not_kw | Or | Pass | Raise | Return
  | True_kw | Try | While | With | Yield

datatype StringTokenFlag = SingleQuote | DoubleQuote | Triplicate | Raw | Unicode | Bytes
  | Format | Unterminated

text \<open>
  Modelled from the spec: the value of a Number token. An integer literal has its
  value; a literal with no digit left once the underscores are stripped has none; the
  conversion of a float literal by the host's double parser is not modelled, the token
  keeps the literal with its underscores stripped.
\<close>

datatype NumberValue = IntegerValue int | FloatLiteral str | NotANumber

text \<open>
  Modelled from the spec: the token as a sum type. A String token carries its flags,
  prefixLength, quoteMarkLength and escapedValue; a Dedent its indentAmount and
  matchesIndent. The flag isIndentAmbiguous of an Indent is left out: the spec does not
  say when a mix of tabs and spaces counts as ambiguous, and no test reads it.
\<close>

datatype TokenKind = Invalid | EndOfStream | NewLine NewLineType | Indent nat | Dedent nat bool
  | Keyword KeywordType | Identifier str | Number NumberValue bool
  | String "StringTokenFlag set" nat nat str
  | Operator OperatorType | Dot | Ellipsis | Colon | Semicolon | Comma | Arrow
  | OpenParenthesis | CloseParenthesis | OpenBracket | CloseBracket
  | OpenCurlyBrace | CloseCurlyBrace

record Comment =
  commentStart :: nat
  commentLength :: nat
  commentValue :: str

record Token =
  start :: nat
  tlength :: nat
  comments :: "Comment list"
  kind :: TokenKind

text \<open>
  Modelled from the spec: the identifier predicates of the character classifier, as the
  main scanner reads them. They are a parameter of the scanner: the Unicode tables behind
  them are not among the sources.
\<close>

record Classifier =
  isIdentifierStart :: "codepoint \<Rightarrow> bool"
  isIdentifierContinue :: "codepoint \<Rightarrow> bool"

definition isDigit :: "codepoint \<Rightarrow> bool" where
  "isDigit ch = (Char_0 \<le> ch \<and> ch \<le> Char_9)"

definition isAsciiLetter :: "codepoint \<Rightarrow> bool" where
  "isAsciiLetter ch = ((Char_A \<le> ch \<and> ch \<le> Char_Z) \<or> (Char_a \<le> ch \<and> ch \<le> 0x7a))"

text \<open>The classifier restricted to ASCII: letters and underscore start an identifier,
  digits continue it.\<close>

definition asciiClassifier :: Classifier where
  "asciiClassifier =
     \<lparr>isIdentifierStart = (\<lambda>ch. isAsciiLetter ch \<or> ch = Char_Underscore),
      isIdentifierContinue = (\<lambda>ch. isAsciiLetter ch \<or> ch = Char_Underscore \<or> isDigit ch)\<rparr>"

section \<open>The string scanner\<close>

definition toLowerAscii :: "codepoint \<Rightarrow> codepoint" where
  "toLowerAscii ch = (if Char_A \<le> ch \<and> ch \<le> Char_Z then ch + 32 else ch)"

definition isQuote :: "codepoint \<Rightarrow> bool" where
  "isQuote ch = (ch = Char_SingleQuote \<or> ch = Char_DoubleQuote)"

text \<open>
  Modelled from the spec: the prefixes matched case-insensitively before the opening
  quote, those the spec lists: b, u, r, f, br, rb, bf, fb, fr, rf, ur, ru.
\<close>

definition stringPrefixes :: "str list" where
  "stringPrefixes =
     map codes [''b'', ''u'', ''r'', ''f'', ''br'', ''rb'', ''bf'', ''fb'', ''fr'', ''rf'',
                ''ur'', ''ru'']"

text \<open>The length of the prefix when a string literal starts here: a quote, or a listed
  prefix of one or two characters directly followed by a quote.\<close>

definition getStringPrefixLength :: "str \<Rightarrow> nat option" where
  "getStringPrefixLength s =
     (case s of
        [] \<Rightarrow> None
      | c # cs \<Rightarrow>
          if isQuote c then Some 0
          else (case cs of
                  [] \<Rightarrow> None
                | d # ds \<Rightarrow>
                    if isQuote d then
                      (if [toLowerAscii c] \<in> set stringPrefixes then Some 1 else None)
                    else (case ds of
                            [] \<Rightarrow> None
                          | e # es \<Rightarrow>
                              if isQuote e \<and> [toLowerAscii c, toLowerAscii d] \<in> set stringPrefixes
                              then Some 2 else None)))"

definition prefixCharFlags :: "codepoint \<Rightarrow> StringTokenFlag set" where
  "prefixCharFlags ch =
     (let l = toLowerAscii ch in
      if l = 0x62 then {Bytes} else if l = 0x75 then {Unicode}
      else if l = 0x72 then {Raw} else if l = 0x66 then {Format} else {})"

definition prefixFlags :: "str \<Rightarrow> StringTokenFlag set" where
  "prefixFlags p = fold (\<lambda>ch acc. acc \<union> prefixCharFlags ch) p {}"

text \<open>
  How many code units follow a backslash as its escaped unit inside a string literal:
  the next character (a CR LF pair counts as one), nothing at the end of the input.
\<close>

definition escapedUnitLength :: "str \<Rightarrow> nat" where
  "escapedUnitLength s =
     (case s of
        [] \<Rightarrow> 0
      | d # ds \<Rightarrow> if d = Char_CarriageReturn \<and> take 1 ds = [Char_LineFeed] then 2 else 1)"

text \<open>
  The body of a string with one quote mark: the length of the escaped value and whether
  the closing quote was found. An unescaped line break or the end of the input ends the
  scan, unterminated; the line break is not consumed.
\<close>

function skipToSingleEndQuote :: "codepoint \<Rightarrow> str \<Rightarrow> nat \<times> bool" where
  "skipToSingleEndQuote q [] = (0, False)"
| "skipToSingleEndQuote q (c # cs) =
     (if c = Char_Backslash then
        (let n = escapedUnitLength cs;
             (m, closed) = skipToSingleEndQuote q (drop n cs)
         in (1 + n + m, closed))
      else if isLineBreak c then (0, False)
      else if c = q then (0, True)
      else (let (m, closed) = skipToSingleEndQuote q cs in (1 + m, closed)))"
  by pat_completeness auto
termination
  by (relation "measure (\<lambda>(q, s). length s)") auto

text \<open>
  The body of a triple-quoted string: it ends at the first unescaped run of three
  quotes; line breaks are part of it.
\<close>

function skipToTripleEndQuote :: "codepoint \<Rightarrow> str \<Rightarrow> nat \<times> bool" where
  "skipToTripleEndQuote q [] = (0, False)"
| "skipToTripleEndQuote q (c # cs) =
     (if c = Char_Backslash then
        (let n = escapedUnitLength cs;
             (m, closed) = skipToTripleEndQuote q (drop n cs)
         in (1 + n + m, closed))
      else if c = q \<and> take 2 cs = [q, q] then (0, True)
      else (let (m, closed) = skipToTripleEndQuote q cs in (1 + m, closed)))"
  by pat_completeness auto
termination
  by (relation "measure (\<lambda>(q, s). length s)") auto

text \<open>
  The string token that starts at the head of \<open>s\<close>, whose prefix has \<open>prefixLength\<close>
  characters: its kind and its length in code units.
\<close>

definition scanString :: "str \<Rightarrow> nat \<Rightarrow> TokenKind \<times> nat" where
  "scanString s prefixLength =
     (let q = (case drop prefixLength s of [] \<Rightarrow> Char_SingleQuote | c # _ \<Rightarrow> c);
          isTriplicate = (take 3 (drop prefixLength s) = [q, q, q]);
          quoteMarkLength = (if isTriplicate then 3 else 1);
          body = drop (prefixLength + quoteMarkLength) s;
          (n, closed) = (if isTriplicate then skipToTripleEndQuote q body
                         else skipToSingleEndQuote q body);
          flags = prefixFlags (take prefixLength s)
                  \<union> (if q = Char_SingleQuote then {SingleQuote} else {DoubleQuote})
                  \<union> (if isTriplicate then {Triplicate} else {})
                  \<union> (if closed then {} else {Unterminated})
      in (String flags prefixLength quoteMarkLength (take n body),
          prefixLength + quoteMarkLength + n + (if closed then quoteMarkLength else 0)))"

section \<open>The numeric scanner\<close>

definition digitValue :: "codepoint \<Rightarrow> nat" where
  "digitValue ch =
     (if isDigit ch then ch - Char_0
      else if Char_a \<le> ch \<and> ch \<le> Char_f then ch - Char_a + 10
      else ch - Char_A + 10)"

definition stripUnderscores :: "str \<Rightarrow> str" where
  "stripUnderscores s = filter (\<lambda>ch. ch \<noteq> Char_Underscore) s"

text \<open>The digits of an integer literal, underscores stripped, read in the given base.\<close>

definition parseInteger :: "nat \<Rightarrow> str \<Rightarrow> NumberValue" where
  "parseInteger base s =
     (let ds = stripUnderscores s in
      if ds = [] then NotANumber
      else IntegerValue (int (foldl (\<lambda>acc ch. acc * base + digitValue ch) 0 ds)))"

text \<open>
  A radix prefix: the letter after the leading 0 selects the base, and the prefix counts
  only when a valid digit of that base follows it. The digit predicates are those of
  characters.ts, for which the underscore is a digit of every base.
\<close>

definition radixOf :: "codepoint \<Rightarrow> (nat \<times> (codepoint \<Rightarrow> bool)) option" where
  "radixOf ch =
     (if ch = 0x78 \<or> ch = 0x58 then Some (16, isHex)
      else if ch = 0x6f \<or> ch = 0x4f then Some (8, isOctal)
      else if ch = 0x62 \<or> ch = 0x42 then Some (2, isBinary)
      else None)"

definition tryRadixNumber :: "str \<Rightarrow> (TokenKind \<times> nat) option" where
  "tryRadixNumber s =
     (case s of
        z # x # d # ds \<Rightarrow>
          (if z = Char_0 then
             (case radixOf x of
                Some (base, isDigitOfBase) \<Rightarrow>
                  if isDigitOfBase d then
                    (let run = takeWhile isDigitOfBase (d # ds)
                     in Some (Number (parseInteger base run) True, 2 + length run))
                  else None
              | None \<Rightarrow> None)
           else None)
      | _ \<Rightarrow> None)"

text \<open>
  The exponent \<open>eE[+-]?digits\<close> at the head of \<open>s\<close>: its length, 0 when there is none.
\<close>

definition exponentLength :: "str \<Rightarrow> nat" where
  "exponentLength s =
     (case s of
        [] \<Rightarrow> 0
      | e # r \<Rightarrow>
          if e = 0x65 \<or> e = 0x45 then
            (let signLength = (case r of [] \<Rightarrow> 0
                               | c # _ \<Rightarrow> if c = Char_Plus \<or> c = Char_Hyphen then 1 else (0::nat));
                 digits = takeWhile isDecimal (drop signLength r)
             in if digits \<noteq> [] \<and> isDigit (hd digits) then 1 + signLength + length digits else 0)
          else 0)"

text \<open>
  A decimal integer or a float: a greedy run of digits with underscores, then a
  fraction (\<open>digits . digits?\<close> or \<open>. digits\<close>), then an exponent. The literal is an
  integer if and only if it has neither.
\<close>

definition tryDecimalNumber :: "str \<Rightarrow> (TokenKind \<times> nat) option" where
  "tryDecimalNumber s =
     (let intRun = takeWhile isDecimal s;
          afterInt = drop (length intRun) s;
          fractionLength =
            (case afterInt of
               [] \<Rightarrow> 0
             | p # r \<Rightarrow>
                 if p = Char_Period \<and> (intRun \<noteq> [] \<or> (r \<noteq> [] \<and> isDigit (hd r)))
                 then 1 + length (takeWhile isDecimal r) else 0);
          mantissaLength = length intRun + fractionLength;
          expLength = (if mantissaLength = 0 then 0 else exponentLength (drop mantissaLength s));
          n = mantissaLength + expLength
      in if n = 0 then None
         else if fractionLength = 0 \<and> expLength = 0
         then Some (Number (parseInteger 10 intRun) True, n)
         else Some (Number (FloatLiteral (stripUnderscores (take n s))) False, n))"

text \<open>The numeric scanner is tried at a decimal digit, or at a period directly followed
  by a decimal digit.\<close>

definition isPossibleNumber :: "str \<Rightarrow> bool" where
  "isPossibleNumber s =
     (case s of
        [] \<Rightarrow> False
      | c # cs \<Rightarrow> isDigit c \<or> (c = Char_Period \<and> cs \<noteq> [] \<and> isDigit (hd cs)))"

definition tryNumber :: "str \<Rightarrow> (TokenKind \<times> nat) option" where
  "tryNumber s =
     (if isPossibleNumber s then
        (case tryRadixNumber s of
           Some r \<Rightarrow> Some r
         | None \<Rightarrow> tryDecimalNumber s)
      else None)"

section \<open>Identifiers, keywords and operators\<close>

definition keywordTable :: "(str \<times> KeywordType) list" where
  "keywordTable =
     map (\<lambda>(s, k). (codes s, k))
       [(''False'', False_kw), (''None'', None_kw), (''True'', True_kw), (''and'', And),
        (''as'', As), (''assert'', Assert), (''async'', Async), (''await'', Await),
        (''break'', Break), (''class'', Class), (''continue'', Continue), (''def'', Def),
        (''del'', Del), (''elif'', Elif), (''else'', Else), (''except'', Except),
        (''finally'', Finally), (''for'', For), (''from'', From), (''global'', Global),
        (''if'', If_kw), (''import'', Import), (''in'', In), (''is'', Is),
        (''lambda'', Lambda), (''nonlocal'', Nonlocal), (''not'', Not_kw), (''or'', Or),
        (''pass'', Pass), (''raise'', Raise), (''return'', Return), (''try'', Try),
        (''while'', While), (''with'', With), (''yield'', Yield), (''__debug__'', Debug)]"

text \<open>An identifier start followed by the greedy run of identifier-continue characters;
  a keyword when the keyword table has it.\<close>

definition tryIdentifier :: "Classifier \<Rightarrow> str \<Rightarrow> (TokenKind \<times> nat) option" where
  "tryIdentifier cl s =
     (case s of
        [] \<Rightarrow> None
      | c # cs \<Rightarrow>
          if isIdentifierStart cl c then
            (let name = c # takeWhile (isIdentifierContinue cl) cs
             in Some (case map_of keywordTable name of
                        Some k \<Rightarrow> Keyword k
                      | None \<Rightarrow> Identifier name,
                      length name))
          else None)"

definition operatorTable :: "(str \<times> OperatorType) list" where
  "operatorTable =
     map (\<lambda>(s, k). (codes s, k))
       [(''<'', LessThan), (''<<'', LeftShift), (''<<='', LeftShiftEqual), (''=='', Equals),
        (''!='', NotEquals), (''>'', GreaterThan), (''>>'', RightShift),
        (''>>='', RightShiftEqual), (''>='', GreaterThanOrEqual), (''<='', LessThanOrEqual),
        (''+'', Add), (''-'', Subtract), (''~'', BitwiseInvert), (''%'', Mod),
        (''*'', Multiply), (''**'', Power), (''/'', Divide), (''//'', FloorDivide),
        (''/='', DivideEqual), (''//='', FloorDivideEqual), (''*='', MultiplyEqual),
        (''+='', AddEqual), (''-='', SubtractEqual), (''%='', ModEqual), (''**='', PowerEqual),
        (''&='', BitwiseAndEqual), (''|='', BitwiseOrEqual), (''^='', BitwiseXorEqual),
        (''&'', BitwiseAnd), (''|'', BitwiseOr), (''^'', BitwiseXor), (''@'', MatrixMultiply),
        (''@='', MatrixMultiplyEqual), (''='', Assign), ('':='', Walrus)]"

definition matchOperator :: "nat \<Rightarrow> str \<Rightarrow> (TokenKind \<times> nat) option" where
  "matchOperator n s =
     (if n \<le> length s then
        (case map_of operatorTable (take n s) of
           Some op \<Rightarrow> Some (Operator op, n)
         | None \<Rightarrow> None)
      else None)"

text \<open>Maximal munch: the longest operator of the table that starts here.\<close>

definition tryOperator :: "str \<Rightarrow> (TokenKind \<times> nat) option" where
  "tryOperator s =
     (case matchOperator 3 s of
        Some r \<Rightarrow> Some r
      | None \<Rightarrow> (case matchOperator 2 s of
                   Some r \<Rightarrow> Some r
                 | None \<Rightarrow> matchOperator 1 s))"

section \<open>The main scanner\<close>

text \<open>
  A run of characters that starts no token is one Invalid token, up to the next white
  space or line break (the unit test 'Unknown token' has one Invalid token for two
  unknown characters in a row).
\<close>

definition invalidTokenLength :: "str \<Rightarrow> nat" where
  "invalidTokenLength s = length (takeWhile (\<lambda>ch. \<not> isWhiteSpace ch \<and> \<not> isLineBreak ch) s)"

text \<open>The brackets and the punctuation of one character.\<close>

definition punctuationTable :: "(codepoint \<times> TokenKind) list" where
  "punctuationTable =
     [(Char_OpenParenthesis, OpenParenthesis), (Char_CloseParenthesis, CloseParenthesis),
      (Char_OpenBracket, OpenBracket), (Char_CloseBracket, CloseBracket),
      (Char_OpenBrace, OpenCurlyBrace), (Char_CloseBrace, CloseCurlyBrace),
      (Char_Comma, Comma), (Char_Semicolon, Semicolon)]"

definition tryPunctuation :: "str \<Rightarrow> (TokenKind \<times> nat) option" where
  "tryPunctuation s =
     (case s of
        [] \<Rightarrow> None
      | c # cs \<Rightarrow>
          (case map_of punctuationTable c of
             Some k \<Rightarrow> Some (k, 1)
           | None \<Rightarrow>
               if c = Char_Colon then
                 (case matchOperator 2 s of Some r \<Rightarrow> Some r | None \<Rightarrow> Some (Colon, 1))
               else None))"

definition tryString :: "str \<Rightarrow> (TokenKind \<times> nat) option" where
  "tryString s =
     (case getStringPrefixLength s of
        Some prefixLength \<Rightarrow> Some (scanString s prefixLength)
      | None \<Rightarrow> None)"

text \<open>A period (one that starts no number) is a Dot, three in a row are an Ellipsis; a
  hyphen before a greater-than sign is an Arrow.\<close>

definition tryDotOrArrow :: "str \<Rightarrow> (TokenKind \<times> nat) option" where
  "tryDotOrArrow s =
     (case s of
        [] \<Rightarrow> None
      | c # cs \<Rightarrow>
          if c = Char_Period then
            (if take 2 cs = [Char_Period, Char_Period] then Some (Ellipsis, 3)
             else Some (Dot, 1))
          else if c = Char_Hyphen \<and> take 1 cs = [Char_Greater] then Some (Arrow, 2)
          else None)"

text \<open>The first scanner of the list that accepts.\<close>

fun firstSome :: "'a option list \<Rightarrow> 'a option" where
  "firstSome [] = None"
| "firstSome (None # rest) = firstSome rest"
| "firstSome (Some r # rest) = Some r"

text \<open>
  The token at the head of \<open>s\<close>, for a head that is no white space, line break,
  backslash or comment: its kind and its length. The order is that of the spec's
  dispatch, with the brackets and the punctuation first.
\<close>

definition scanToken :: "Classifier \<Rightarrow> str \<Rightarrow> TokenKind \<times> nat" where
  "scanToken cl s =
     (case firstSome [tryPunctuation s, tryNumber s, tryString s, tryDotOrArrow s,
                      tryIdentifier cl s, tryOperator s] of
        Some r \<Rightarrow> r
      | None \<Rightarrow> (Invalid, invalidTokenLength s))"

text \<open>
  The scanner's state: the tokens emitted so far, the indent stack (its top first: the
  stack the spec writes [0, 2, 8] is [8, 2, 0] here; it starts as [0]), the bracket depth
  and the comments waiting for the next token.
\<close>

record ScannerState =
  emitted :: "Token list"
  indentAmounts :: "nat list"
  parenDepth :: nat
  pendingComments :: "Comment list"

definition initialState :: ScannerState where
  "initialState = \<lparr>emitted = [], indentAmounts = [0], parenDepth = 0, pendingComments = []\<rparr>"

text \<open>A token takes the pending comments with it.\<close>

definition pushToken :: "TokenKind \<Rightarrow> nat \<Rightarrow> nat \<Rightarrow> ScannerState \<Rightarrow> ScannerState" where
  "pushToken k pos n st =
     st\<lparr>emitted := emitted st @ [\<lparr>start = pos, tlength = n, comments = pendingComments st,
                                   kind = k\<rparr>],
        pendingComments := []\<rparr>"

text \<open>
  The Dedent tokens of a line indented by \<open>amt\<close>, less than the top of the stack: one
  per popped level, as (indentAmount, matchesIndent), and the stack that is left. Levels
  are popped while they exceed \<open>amt\<close>. A Dedent that is not the last carries the level
  beneath the popped one; the last carries \<open>amt\<close>, and matches if \<open>amt\<close> is the level
  beneath. (The unit test 'IndentDedent' pins the amounts: from the stack [0, 2, 8] a
  line indented by 1 gives Dedent(2, true) and Dedent(1, false), and no Dedent at the
  end of the input, so the unmatched amount is not pushed.)
\<close>

fun dedentTokens :: "nat \<Rightarrow> nat list \<Rightarrow> (nat \<times> bool) list \<times> nat list" where
  "dedentTokens amt [] = ([], [])"
| "dedentTokens amt (level # rest) =
     (if amt < level then
        (let below = (case rest of [] \<Rightarrow> 0 | b # _ \<Rightarrow> b) in
         if amt < below then
           (let (ds, stack) = dedentTokens amt rest in ((below, True) # ds, stack))
         else ([(amt, below = amt)], rest))
      else ([], level # rest))"

definition pushDedents :: "(nat \<times> bool) list \<Rightarrow> nat \<Rightarrow> ScannerState \<Rightarrow> ScannerState" where
  "pushDedents ds pos st = fold (\<lambda>(amt, matches). pushToken (Dedent amt matches) pos 0) ds st"

text \<open>
  The indentation of a line with content, compared with the top of the stack. Inside
  brackets nothing is emitted and the stack is left alone.
\<close>

definition setIndent :: "nat \<Rightarrow> nat \<Rightarrow> ScannerState \<Rightarrow> ScannerState" where
  "setIndent pos tab8Spaces st =
     (if parenDepth st > 0 then st
      else
        (case indentAmounts st of
           [] \<Rightarrow> st
         | level # rest \<Rightarrow>
             if level = tab8Spaces then st
             else if level < tab8Spaces then
               pushToken (Indent tab8Spaces) pos 0
                 (st\<lparr>indentAmounts := tab8Spaces # indentAmounts st\<rparr>)
             else
               (let (ds, stack) = dedentTokens tab8Spaces (indentAmounts st)
                in pushDedents ds pos (st\<lparr>indentAmounts := stack\<rparr>))))"

text \<open>
  Tab expansion: a space adds 1, a tab advances to the next multiple of 8. (A form feed
  is white space for the classifier; the spec gives it no width, and it adds none here.)
\<close>

definition tab8Step :: "nat \<Rightarrow> codepoint \<Rightarrow> nat" where
  "tab8Step col ch =
     (if ch = Char_Space then col + 1
      else if ch = Char_Tab then col + (8 - col mod 8)
      else col)"

definition indentAmountOf :: "str \<Rightarrow> nat" where
  "indentAmountOf ws = foldl tab8Step 0 ws"

text \<open>
  After a line terminator: the leading white space of the next line is read, and the
  indentation is set if content follows (not a line break, a comment or the end of the
  input). Returns the number of characters read.
\<close>

definition readIndentationAfterNewline :: "str \<Rightarrow> nat \<Rightarrow> ScannerState \<Rightarrow> nat \<times> ScannerState" where
  "readIndentationAfterNewline s pos st =
     (let ws = takeWhile isWhiteSpace s in
      (length ws,
       (case drop (length ws) s of
          [] \<Rightarrow> st
        | c # _ \<Rightarrow>
            if isLineBreak c \<or> c = Char_Hash then st
            else setIndent (pos + length ws) (indentAmountOf ws) st)))"

definition isNewLine :: "TokenKind \<Rightarrow> bool" where
  "isNewLine k = (case k of NewLine _ \<Rightarrow> True | _ \<Rightarrow> False)"

definition lastIsNewLine :: "Token list \<Rightarrow> bool" where
  "lastIsNewLine ts = (case rev ts of [] \<Rightarrow> False | t # _ \<Rightarrow> isNewLine (kind t))"

text \<open>
  A line terminator of \<open>n\<close> characters at the head of \<open>s\<close>. Outside brackets it is a
  NewLine token, unless the last token is one already; inside brackets it is swallowed.
\<close>

definition handleNewLine ::
  "nat \<Rightarrow> NewLineType \<Rightarrow> str \<Rightarrow> nat \<Rightarrow> ScannerState \<Rightarrow> nat \<times> ScannerState" where
  "handleNewLine n newLineType s pos st =
     (let st1 = (if parenDepth st = 0 \<and> \<not> lastIsNewLine (emitted st)
                 then pushToken (NewLine newLineType) pos n st else st);
          (k, st2) = readIndentationAfterNewline (drop n s) (pos + n) st1
      in (n + k, st2))"

text \<open>A comment runs from the hash to the end of the line and waits for the next token.\<close>

definition handleComment :: "str \<Rightarrow> nat \<Rightarrow> ScannerState \<Rightarrow> nat \<times> ScannerState" where
  "handleComment s pos st =
     (let v = takeWhile (\<lambda>ch. \<not> isLineBreak ch) (drop 1 s) in
      (1 + length v,
       st\<lparr>pendingComments := pendingComments st
            @ [\<lparr>commentStart = pos + 1, commentLength = length v, commentValue = v\<rparr>]\<rparr>))"

text \<open>
  A backslash directly before a line terminator continues the line: both are consumed
  and nothing is emitted. Any other backslash starts an Invalid token.
\<close>

definition handleBackslash :: "str \<Rightarrow> nat \<Rightarrow> ScannerState \<Rightarrow> nat \<times> ScannerState" where
  "handleBackslash s pos st =
     (if take 2 (drop 1 s) = [Char_CarriageReturn, Char_LineFeed] then (3, st)
      else if take 1 (drop 1 s) = [Char_CarriageReturn] \<or> take 1 (drop 1 s) = [Char_LineFeed]
      then (2, st)
      else (invalidTokenLength s, pushToken Invalid pos (invalidTokenLength s) st))"

text \<open>The brackets move the bracket depth; a closing bracket at depth 0 leaves it.\<close>

definition adjustParenDepth :: "TokenKind \<Rightarrow> nat \<Rightarrow> nat" where
  "adjustParenDepth k d =
     (if k = OpenParenthesis \<or> k = OpenBracket \<or> k = OpenCurlyBrace then d + 1
      else if k = CloseParenthesis \<or> k = CloseBracket \<or> k = CloseCurlyBrace then d - 1
      else d)"

definition handleCharacter ::
  "Classifier \<Rightarrow> str \<Rightarrow> nat \<Rightarrow> ScannerState \<Rightarrow> nat \<times> ScannerState" where
  "handleCharacter cl s pos st =
     (case s of
        [] \<Rightarrow> (0, st)
      | c # cs \<Rightarrow>
          if c = Char_CarriageReturn then
            (if take 1 cs = [Char_LineFeed] then handleNewLine 2 CarriageReturnLineFeed s pos st
             else handleNewLine 1 CarriageReturn s pos st)
          else if c = Char_LineFeed then handleNewLine 1 LineFeed s pos st
          else if c = Char_Backslash then handleBackslash s pos st
          else if c = Char_Hash then handleComment s pos st
          else
            (let (k, n) = scanToken cl s
             in (n, pushToken k pos n (st\<lparr>parenDepth := adjustParenDepth k (parenDepth st)\<rparr>))))"

text \<open>Every step of the scanner consumes at least one character.\<close>

lemma scanString_progress: "0 < snd (scanString s prefixLength)"
  by (simp add: scanString_def Let_def split: prod.splits)

lemma tryRadixNumber_progress: "tryRadixNumber s = Some (k, n) \<Longrightarrow> 0 < n"
  by (auto simp: tryRadixNumber_def Let_def split: list.splits if_splits option.splits)

lemma tryDecimalNumber_progress: "tryDecimalNumber s = Some (k, n) \<Longrightarrow> 0 < n"
  by (auto simp: tryDecimalNumber_def Let_def split: if_splits)

lemma tryNumber_progress: "tryNumber s = Some (k, n) \<Longrightarrow> 0 < n"
  by (auto simp: tryNumber_def split: if_splits option.splits
      dest: tryRadixNumber_progress tryDecimalNumber_progress)

lemma matchOperator_progress: "matchOperator m s = Some (k, n) \<Longrightarrow> n = m"
  by (auto simp: matchOperator_def split: if_splits option.splits)

lemma tryOperator_progress: "tryOperator s = Some (k, n) \<Longrightarrow> 0 < n"
  by (auto simp: tryOperator_def split: option.splits dest: matchOperator_progress)

lemma tryIdentifier_progress: "tryIdentifier cl s = Some (k, n) \<Longrightarrow> 0 < n"
  by (auto simp: tryIdentifier_def Let_def split: list.splits if_splits)

lemma invalidTokenLength_progress:
  "\<not> isWhiteSpace c \<Longrightarrow> \<not> isLineBreak c \<Longrightarrow> 0 < invalidTokenLength (c # cs)"
  by (simp add: invalidTokenLength_def)

lemma tryPunctuation_progress: "tryPunctuation s = Some (k, n) \<Longrightarrow> 0 < n"
  by (auto simp: tryPunctuation_def split: list.splits option.splits if_splits
      dest: matchOperator_progress)

lemma tryString_progress: "tryString s = Some (k, n) \<Longrightarrow> 0 < n"
  using scanString_progress [of s]
  by (auto simp: tryString_def split: option.splits) (metis snd_conv)

lemma tryDotOrArrow_progress: "tryDotOrArrow s = Some (k, n) \<Longrightarrow> 0 < n"
  by (auto simp: tryDotOrArrow_def split: list.splits if_splits)

lemma firstSome_cases:
  "firstSome xs = Some r \<Longrightarrow> Some r \<in> set xs"
  by (induction xs rule: firstSome.induct) auto

lemma scanToken_progress:
  assumes "\<not> isWhiteSpace c" and "\<not> isLineBreak c"
  shows "0 < snd (scanToken cl (c # cs))"
proof (cases "firstSome [tryPunctuation (c # cs), tryNumber (c # cs), tryString (c # cs),
                tryDotOrArrow (c # cs), tryIdentifier cl (c # cs), tryOperator (c # cs)]")
  case None
  then show ?thesis
    using invalidTokenLength_progress [OF assms] by (simp add: scanToken_def)
next
  case (Some r)
  obtain k n where r: "r = (k, n)" by (cases r)
  from firstSome_cases [OF Some] have "0 < n"
    unfolding r
    by (auto dest: tryPunctuation_progress [OF sym] tryNumber_progress [OF sym]
        tryString_progress [OF sym] tryDotOrArrow_progress [OF sym]
        tryIdentifier_progress [OF sym] tryOperator_progress [OF sym])
  with Some r show ?thesis by (simp add: scanToken_def)
qed

lemma handleCharacter_progress:
  assumes "\<not> isWhiteSpace c"
  shows "0 < fst (handleCharacter cl (c # cs) pos st)"
proof -
  consider (newline) "isLineBreak c"
    | (backslash) "\<not> isLineBreak c" "c = Char_Backslash"
    | (comment) "\<not> isLineBreak c" "c \<noteq> Char_Backslash" "c = Char_Hash"
    | (token) "\<not> isLineBreak c" "c \<noteq> Char_Backslash" "c \<noteq> Char_Hash"
    by blast
  then show ?thesis
  proof cases
    case newline
    then show ?thesis
      by (auto simp: handleCharacter_def handleNewLine_def isLineBreak_def Let_def
          split: prod.splits)
  next
    case backslash
    have "0 < invalidTokenLength (c # cs)"
      using assms backslash(1) by (rule invalidTokenLength_progress)
    then have "0 < fst (handleBackslash (c # cs) pos st)"
      by (simp add: handleBackslash_def)
    with backslash show ?thesis
      by (simp add: handleCharacter_def isLineBreak_def)
  next
    case comment
    have "0 < fst (handleComment (c # cs) pos st)"
      by (simp add: handleComment_def Let_def)
    with comment show ?thesis
      by (simp add: handleCharacter_def isLineBreak_def)
  next
    case token
    have "0 < snd (scanToken cl (c # cs))"
      using assms token(1) by (rule scanToken_progress)
    with token show ?thesis
      by (simp add: handleCharacter_def isLineBreak_def case_prod_beta)
  qed
qed

text \<open>
  The token loop: white space between tokens is skipped, anything else is handled at
  its first character, and the scan goes on after the characters consumed.
\<close>

function scan :: "Classifier \<Rightarrow> str \<Rightarrow> nat \<Rightarrow> ScannerState \<Rightarrow> ScannerState" where
  "scan cl [] pos st = st"
| "scan cl (c # cs) pos st =
     (if isWhiteSpace c then scan cl cs (pos + 1) st
      else
        (let (n, st') = handleCharacter cl (c # cs) pos st
         in scan cl (drop n (c # cs)) (pos + n) st'))"
  by pat_completeness auto
termination
proof (relation "measure (\<lambda>(cl, s, pos, st). length s)", goal_cases)
  case 1
  show ?case by simp
next
  case (2 cl c cs pos st)
  show ?case by simp
next
  case (3 cl c cs pos st x n st')
  from handleCharacter_progress [OF 3(1), of cl cs pos st] 3(2,3) have "0 < n"
    by (metis fst_conv)
  then show ?case by simp
qed

text \<open>
  At the end of the input: an Implied NewLine of length 0 unless the last token is a
  NewLine, the Dedent tokens that return to level 0 (the unit test 'IndentDedentParen'
  has one between the last NewLine and EndOfStream), and the EndOfStream token.
\<close>

definition finish :: "nat \<Rightarrow> ScannerState \<Rightarrow> ScannerState" where
  "finish pos st =
     (let st1 = (if lastIsNewLine (emitted st) then st else pushToken (NewLine Implied) pos 0 st);
          st2 = setIndent pos 0 st1
      in pushToken EndOfStream pos 0 st2)"

text \<open>
  The line spans as (start, length), one per physical line, the terminator included; the
  text after the last terminator is a line too, also when it is empty.
\<close>

fun lineLengths :: "str \<Rightarrow> nat \<Rightarrow> nat list" where
  "lineLengths [] n = [n]"
| "lineLengths (c # cs) n =
     (if c = Char_CarriageReturn then
        (case cs of
           [] \<Rightarrow> [n + 1, 0]
         | d # ds \<Rightarrow> if d = Char_LineFeed then (n + 2) # lineLengths ds 0
                     else (n + 1) # lineLengths cs 0)
      else if c = Char_LineFeed then (n + 1) # lineLengths cs 0
      else lineLengths cs (n + 1))"

fun rangesFrom :: "nat \<Rightarrow> nat list \<Rightarrow> (nat \<times> nat) list" where
  "rangesFrom pos [] = []"
| "rangesFrom pos (n # ns) = (pos, n) # rangesFrom (pos + n) ns"

record TokenizerOutput =
  tokens :: "Token list"
  lines :: "(nat \<times> nat) list"

definition tokenize :: "Classifier \<Rightarrow> str \<Rightarrow> TokenizerOutput" where
  "tokenize cl s =
     \<lparr>tokens = emitted (finish (length s) (scan cl s 0 initialState)),
      lines = rangesFrom 0 (lineLengths s 0)\<rparr>"

definition kinds :: "TokenizerOutput \<Rightarrow> TokenKind list" where
  "kinds out = map kind (tokens out)"

section \<open>The string unescaper and the f-string splitter\<close>

datatype UnescapeErrorType = InvalidEscapeSequence | EscapeWithinFormatExpression
  | SingleCloseBraceWithinFormatLiteral | UnterminatedFormatExpression

record UnescapeError =
  offset :: nat
  errorLength :: nat
  errorType :: UnescapeErrorType

record FormatStringSegment =
  segmentOffset :: nat
  segmentValue :: str
  isExpression :: bool

record UnescapedString =
  unescapedValue :: str
  unescapeErrors :: "UnescapeError list"
  formatStringSegments :: "FormatStringSegment list"
  nonAsciiInBytes :: bool

definition isHexDigit :: "codepoint \<Rightarrow> bool" where
  "isHexDigit ch = (isDigit ch \<or> (Char_a \<le> ch \<and> ch \<le> Char_f) \<or> (Char_A \<le> ch \<and> ch \<le> Char_F))"

definition isOctalDigit :: "codepoint \<Rightarrow> bool" where
  "isOctalDigit ch = (Char_0 \<le> ch \<and> ch \<le> Char_7)"

definition digitsValue :: "nat \<Rightarrow> str \<Rightarrow> nat" where
  "digitsValue base ds = foldl (\<lambda>acc ch. acc * base + digitValue ch) 0 ds"

text \<open>\<open>\xHH\<close>, \<open>\uHHHH\<close>, \<open>\UHHHHHHHH\<close>: exactly \<open>k\<close> hexadecimal digits after the letter.\<close>

definition hexEscape :: "nat \<Rightarrow> str \<Rightarrow> (str \<times> nat) option" where
  "hexEscape k r =
     (if k \<le> length r \<and> list_all isHexDigit (take k r)
      then Some ([digitsValue 16 (take k r)], 1 + k) else None)"

text \<open>
  \<open>\N{NAME}\<close>: a brace, a run without white space, a closing brace. The table of the
  Unicode names is outside the tokenizer, and a parameter here.
\<close>

definition nameEscape :: "(str \<Rightarrow> codepoint) \<Rightarrow> str \<Rightarrow> (str \<times> nat) option" where
  "nameEscape names r =
     (case r of
        [] \<Rightarrow> None
      | b # rest \<Rightarrow>
          (let name = takeWhile (\<lambda>ch. ch \<noteq> Char_CloseBrace) rest in
           if b = Char_OpenBrace \<and> length name < length rest
              \<and> \<not> list_ex (\<lambda>ch. isWhiteSpace ch \<or> isLineBreak ch) name
           then Some ([names name], 3 + length name) else None))"

text \<open>
  The escape after a backslash: the decoded characters and the number of characters
  consumed after the backslash, or None for an invalid escape sequence.
\<close>

definition decodeEscape :: "(str \<Rightarrow> codepoint) \<Rightarrow> str \<Rightarrow> (str \<times> nat) option" where
  "decodeEscape names s =
     (case s of
        [] \<Rightarrow> None
      | e # r \<Rightarrow>
          if e = Char_Backslash \<or> e = Char_SingleQuote \<or> e = Char_DoubleQuote then Some ([e], 1)
          else if e = 0x61 then Some ([0x07], 1)
          else if e = 0x62 then Some ([0x08], 1)
          else if e = 0x66 then Some ([0x0c], 1)
          else if e = 0x6e then Some ([0x0a], 1)
          else if e = 0x72 then Some ([0x0d], 1)
          else if e = 0x74 then Some ([0x09], 1)
          else if e = 0x76 then Some ([0x0b], 1)
          else if e = Char_LineFeed then Some ([], 1)
          else if e = Char_CarriageReturn then
            Some ([], if take 1 r = [Char_LineFeed] then 2 else 1)
          else if isOctalDigit e then
            (let ds = takeWhile isOctalDigit (take 3 s) in Some ([digitsValue 8 ds], length ds))
          else if e = 0x78 then hexEscape 2 r
          else if e = 0x75 then hexEscape 4 r
          else if e = 0x55 then hexEscape 8 r
          else if e = 0x4e then nameEscape names r
          else None)"

text \<open>
  The walk over the escaped value, from offset \<open>off\<close>: the cooked value and the
  errors. In raw mode a backslash is kept as it is and nothing is decoded. Otherwise an
  escape is decoded; an invalid one is an error that covers the backslash and the
  character after it, and its characters are kept.
\<close>

function unescape ::
  "(str \<Rightarrow> codepoint) \<Rightarrow> bool \<Rightarrow> nat \<Rightarrow> str \<Rightarrow> str \<times> UnescapeError list" where
  "unescape names isRaw off [] = ([], [])"
| "unescape names isRaw off (c # cs) =
     (if c = Char_Backslash \<and> \<not> isRaw then
        (case decodeEscape names cs of
           Some (out, n) \<Rightarrow>
             (let (v, errors) = unescape names isRaw (off + 1 + n) (drop n cs)
              in (out @ v, errors))
         | None \<Rightarrow>
             (let (v, errors) = unescape names isRaw (off + 1) cs
              in (c # v,
                  \<lparr>offset = off, errorLength = 2, errorType = InvalidEscapeSequence\<rparr> # errors)))
      else (let (v, errors) = unescape names isRaw (off + 1) cs in (c # v, errors)))"
  by pat_completeness auto
termination
  by (relation "measure (\<lambda>(names, isRaw, off, s). length s)") auto

datatype QuoteState = NoQuote | InSingleQuote | InDoubleQuote

text \<open>Inside an f-string expression: the quote state and the depths of ( [ {.\<close>

record ExpressionState =
  quoteState :: QuoteState
  parenNesting :: nat
  bracketNesting :: nat
  braceNesting :: nat

definition initialExpressionState :: ExpressionState where
  "initialExpressionState =
     \<lparr>quoteState = NoQuote, parenNesting = 0, bracketNesting = 0, braceNesting = 0\<rparr>"

definition atDepthZero :: "ExpressionState \<Rightarrow> bool" where
  "atDepthZero es =
     (quoteState es = NoQuote \<and> parenNesting es = 0 \<and> bracketNesting es = 0
      \<and> braceNesting es = 0)"

definition expressionStep :: "ExpressionState \<Rightarrow> codepoint \<Rightarrow> ExpressionState" where
  "expressionStep es ch =
     (case quoteState es of
        InSingleQuote \<Rightarrow> if ch = Char_SingleQuote then es\<lparr>quoteState := NoQuote\<rparr> else es
      | InDoubleQuote \<Rightarrow> if ch = Char_DoubleQuote then es\<lparr>quoteState := NoQuote\<rparr> else es
      | NoQuote \<Rightarrow>
          if ch = Char_SingleQuote then es\<lparr>quoteState := InSingleQuote\<rparr>
          else if ch = Char_DoubleQuote then es\<lparr>quoteState := InDoubleQuote\<rparr>
          else if ch = Char_OpenParenthesis then es\<lparr>parenNesting := parenNesting es + 1\<rparr>
          else if ch = Char_CloseParenthesis then es\<lparr>parenNesting := parenNesting es - 1\<rparr>
          else if ch = Char_OpenBracket then es\<lparr>bracketNesting := bracketNesting es + 1\<rparr>
          else if ch = Char_CloseBracket then es\<lparr>bracketNesting := bracketNesting es - 1\<rparr>
          else if ch = Char_OpenBrace then es\<lparr>braceNesting := braceNesting es + 1\<rparr>
          else if ch = Char_CloseBrace then es\<lparr>braceNesting := braceNesting es - 1\<rparr>
          else es)"

text \<open>A literal segment is recorded when it is not empty.\<close>

definition literalSegment :: "nat \<Rightarrow> str \<Rightarrow> FormatStringSegment list" where
  "literalSegment segStart v =
     (if v = [] then []
      else [\<lparr>segmentOffset = segStart, segmentValue = v, isExpression = False\<rparr>])"

definition expressionSegment :: "nat \<Rightarrow> str \<Rightarrow> FormatStringSegment list" where
  "expressionSegment segStart v =
     [\<lparr>segmentOffset = segStart, segmentValue = v, isExpression = True\<rparr>]"

definition withSegments ::
  "FormatStringSegment list \<Rightarrow> FormatStringSegment list \<times> UnescapeError list
   \<Rightarrow> FormatStringSegment list \<times> UnescapeError list" where
  "withSegments segs r = (segs @ fst r, snd r)"

definition withError ::
  "UnescapeError \<Rightarrow> FormatStringSegment list \<times> UnescapeError list
   \<Rightarrow> FormatStringSegment list \<times> UnescapeError list" where
  "withError e r = (fst r, e # snd r)"

text \<open>
  The splitter, in a literal segment and in an expression; \<open>off\<close> is the offset of the
  head of the rest, \<open>segStart\<close> and \<open>v\<close> are the offset and the value so far of the
  segment being read. A doubled brace in a literal is one brace of its value. A single
  closing brace in a literal is an error at its offset; the literal ends before it and
  the next one starts after it. An expression that the end of the string cuts short is
  recorded, with an error at the offset where its text starts (the unit test of the
  unterminated expression has the error at offset 7 for a brace at offset 6).
\<close>

function splitLiteral ::
    "nat \<Rightarrow> nat \<Rightarrow> str \<Rightarrow> str \<Rightarrow> FormatStringSegment list \<times> UnescapeError list"
  and splitExpression ::
    "nat \<Rightarrow> nat \<Rightarrow> str \<Rightarrow> ExpressionState \<Rightarrow> str
     \<Rightarrow> FormatStringSegment list \<times> UnescapeError list" where
  "splitLiteral off segStart v [] = (literalSegment segStart v, [])"
| "splitLiteral off segStart v (c # cs) =
     (if c = Char_OpenBrace then
        (if take 1 cs = [Char_OpenBrace]
         then splitLiteral (off + 2) segStart (v @ [c]) (drop 1 cs)
         else withSegments (literalSegment segStart v)
                (splitExpression (off + 1) (off + 1) [] initialExpressionState cs))
      else if c = Char_CloseBrace then
        (if take 1 cs = [Char_CloseBrace]
         then splitLiteral (off + 2) segStart (v @ [c]) (drop 1 cs)
         else withError
                \<lparr>offset = off, errorLength = 1, errorType = SingleCloseBraceWithinFormatLiteral\<rparr>
                (withSegments (literalSegment segStart v)
                   (splitLiteral (off + 1) (off + 1) [] cs)))
      else splitLiteral (off + 1) segStart (v @ [c]) cs)"
| "splitExpression off segStart v es [] =
     (expressionSegment segStart v,
      [\<lparr>offset = segStart, errorLength = off - segStart,
        errorType = UnterminatedFormatExpression\<rparr>])"
| "splitExpression off segStart v es (c # cs) =
     (if c = Char_CloseBrace \<and> atDepthZero es then
        withSegments (expressionSegment segStart v) (splitLiteral (off + 1) (off + 1) [] cs)
      else if c = Char_Backslash then
        withError
          \<lparr>offset = off, errorLength = 1, errorType = EscapeWithinFormatExpression\<rparr>
          (splitExpression (off + 1) segStart (v @ [c]) (expressionStep es c) cs)
      else splitExpression (off + 1) segStart (v @ [c]) (expressionStep es c) cs)"
  by pat_completeness auto
termination
  by (relation "measure (\<lambda>x. case x of Inl (off, segStart, v, s) \<Rightarrow> length s
                                  | Inr (off, segStart, v, es, s) \<Rightarrow> length s)") auto

text \<open>
  \<open>getUnescapedString\<close>. For a raw string the value is the escaped value and there are
  no errors. For a string that is neither raw nor a format string the escapes are
  decoded. For a format string the body is split into segments; the spec does not say
  what the value of a format string is: here it is the concatenation of the values of
  its segments. A bytes string with a code point from 0x80 on in its value sets
  nonAsciiInBytes. (The type StringToken excludes the other tokens; they get the empty
  result.)
\<close>

definition getUnescapedString :: "(str \<Rightarrow> codepoint) \<Rightarrow> Token \<Rightarrow> UnescapedString" where
  "getUnescapedString names t =
     (case kind t of
        String flags prefixLength quoteMarkLength escapedValue \<Rightarrow>
          (let isRaw = (Raw \<in> flags);
               isFormat = (Format \<in> flags);
               (segments, formatErrors) =
                  (if isFormat then splitLiteral 0 0 [] escapedValue else ([], []));
               (decoded, escapeErrors) = unescape names isRaw 0 escapedValue;
               v = (if isFormat \<and> \<not> isRaw then concat (map segmentValue segments)
                    else decoded)
           in \<lparr>unescapedValue = v,
               unescapeErrors =
                 (if isRaw then [] else if isFormat then formatErrors else escapeErrors),
               formatStringSegments = segments,
               nonAsciiInBytes = (Bytes \<in> flags \<and> list_ex (\<lambda>ch. 0x80 \<le> ch) v)\<rparr>)
      | _ \<Rightarrow>
          \<lparr>unescapedValue = [], unescapeErrors = [], formatStringSegments = [],
           nonAsciiInBytes = False\<rparr>)"

section \<open>Predicates on token streams\<close>


definition emittedKinds :: "ScannerState \<Rightarrow> TokenKind list" where
  "emittedKinds st = map kind (emitted st)"

definition isDedent :: "TokenKind \<Rightarrow> bool" where
  "isDedent k = (case k of Dedent _ _ \<Rightarrow> True | _ \<Rightarrow> False)"

definition isIndent :: "TokenKind \<Rightarrow> bool" where
  "isIndent k = (case k of Indent _ \<Rightarrow> True | _ \<Rightarrow> False)"

text \<open>The kinds only the layout rules emit, never the scanners of \<open>scanToken\<close>.\<close>

definition isLayoutKind :: "TokenKind \<Rightarrow> bool" where
  "isLayoutKind k =
     (case k of NewLine _ \<Rightarrow> True | Indent _ \<Rightarrow> True | Dedent _ _ \<Rightarrow> True
      | EndOfStream \<Rightarrow> True | _ \<Rightarrow> False)"



definition parenInput :: str where
  "parenInput =
     codes ''test ('' @ [Char_LineFeed]
     @ codes ''  i1'' @ [Char_LineFeed]
     @ codes ''       )'' @ [Char_LineFeed]
     @ codes ''  foo''"

definition isOpenBracket :: "TokenKind \<Rightarrow> bool" where
  "isOpenBracket k = (k = OpenParenthesis \<or> k = OpenBracket \<or> k = OpenCurlyBrace)"

definition isCloseBracket :: "TokenKind \<Rightarrow> bool" where
  "isCloseBracket k = (k = CloseParenthesis \<or> k = CloseBracket \<or> k = CloseCurlyBrace)"

text \<open>The number of unmatched opening brackets after the tokens, from \<open>depth\<close>.\<close>

fun bracketDepth :: "nat \<Rightarrow> TokenKind list \<Rightarrow> nat" where
  "bracketDepth depth [] = depth"
| "bracketDepth depth (k # ks) =
     (if isOpenBracket k then bracketDepth (depth + 1) ks
      else if isCloseBracket k then bracketDepth (depth - 1) ks
      else bracketDepth depth ks)"

text \<open>Every Indent and Dedent of the stream stands where no bracket is open.\<close>

fun indentsOutsideBrackets :: "nat \<Rightarrow> TokenKind list \<Rightarrow> bool" where
  "indentsOutsideBrackets depth [] = True"
| "indentsOutsideBrackets depth (k # ks) =
     (if isIndent k \<or> isDedent k then depth = 0 \<and> indentsOutsideBrackets depth ks
      else if isOpenBracket k then indentsOutsideBrackets (depth + 1) ks
      else if isCloseBracket k then indentsOutsideBrackets (depth - 1) ks
      else indentsOutsideBrackets depth ks)"

definition tokenIndentAmount :: "TokenKind \<Rightarrow> nat" where
  "tokenIndentAmount k = (case k of Indent amt \<Rightarrow> amt | Dedent amt _ \<Rightarrow> amt | _ \<Rightarrow> 0)"

definition tokenMatchesIndent :: "TokenKind \<Rightarrow> bool" where
  "tokenMatchesIndent k = (case k of Dedent _ matches \<Rightarrow> matches | _ \<Rightarrow> False)"

text \<open>
  The indent stack replayed on a token stream: an Indent pushes its amount, a Dedent
  pops one level.
\<close>

fun indentStackAfter :: "nat list \<Rightarrow> TokenKind list \<Rightarrow> nat list" where
  "indentStackAfter stack [] = stack"
| "indentStackAfter stack (k # ks) =
     (if isIndent k then indentStackAfter (tokenIndentAmount k # stack) ks
      else if isDedent k then indentStackAfter (tl stack) ks
      else indentStackAfter stack ks)"

text \<open>
  Every Dedent of the stream pops a level and stands in the relation \<open>R\<close> to it:
  \<open>R amt matches popped below\<close> for the Dedent's indentAmount and matchesIndent, the
  level it pops and the level beneath.
\<close>

fun dedentsSatisfy ::
  "(nat \<Rightarrow> bool \<Rightarrow> nat \<Rightarrow> nat \<Rightarrow> bool) \<Rightarrow> nat list \<Rightarrow> TokenKind list \<Rightarrow> bool" where
  "dedentsSatisfy R stack [] = True"
| "dedentsSatisfy R stack (k # ks) =
     (if isIndent k then dedentsSatisfy R (tokenIndentAmount k # stack) ks
      else if isDedent k then
        (case stack of
           popped # below # rest \<Rightarrow>
             R (tokenIndentAmount k) (tokenMatchesIndent k) popped below
             \<and> dedentsSatisfy R (below # rest) ks
         | _ \<Rightarrow> False)
      else dedentsSatisfy R stack ks)"






section \<open>Properties of the classifier\<close>

text \<open>
  C9: \<open>isWhiteSpace\<close> holds of SPACE, TAB and FORM FEED and of nothing else (so of none
  of the other space characters of the enum, NBSP among them), and \<open>isLineBreak\<close>
  holds of LF and CR and of nothing else.
\<close>

theorem isWhiteSpace_isLineBreak_exact:
  "(isWhiteSpace ch = (ch = 0x20 \<or> ch = 0x09 \<or> ch = 0x0C))
   \<and> (isLineBreak ch = (ch = 0x0A \<or> ch = 0x0D))
   \<and> list_all (\<lambda>c. \<not> isWhiteSpace c) otherSpaceCharacters
   \<and> \<not> isWhiteSpace 0xA0"
  by (auto simp: isWhiteSpace_def isLineBreak_def Char_defs otherSpaceCharacters_def)

text \<open>
  C10: \<open>isNumber\<close> and \<open>isDecimal\<close> agree on every code point, and hold exactly of
  the ASCII digits 0x30..0x39 and of the underscore 0x5F.
\<close>

theorem isNumber_eq_isDecimal:
  "isNumber ch = isDecimal ch
   \<and> (isDecimal ch = ((0x30 \<le> ch \<and> ch \<le> 0x39) \<or> ch = 0x5F))"
  by (simp add: isNumber_def isDecimal_def Char_defs)

lemma map_fold_setCategory:
  "identifierCharMap (fold (setCategory category) xs t) k =
     (if k \<in> set xs \<and> identifierCharFastTableSize \<le> k then Some category
      else identifierCharMap t k)"
  by (induction xs arbitrary: t) (auto simp: setCategory_def)

lemma map_fillRange:
  "identifierCharMap (fillRange a b category t) k =
     (if a \<le> k \<and> k \<le> b \<and> identifierCharFastTableSize \<le> k then Some category
      else identifierCharMap t k)"
  by (auto simp: fillRange_def map_fold_setCategory)

lemma map_build_not_covered:
  "\<not> tableCovers table k \<Longrightarrow>
   identifierCharMap (buildIdentifierLookupTableFromUnicodeRangeTable table category fto t) k
     = identifierCharMap t k"
  by (induction table arbitrary: t)
     (auto simp: tableCovers_def entryCovers_def map_fillRange Let_def)

lemma map_build_full_covered:
  "tableCovers table k \<Longrightarrow> identifierCharFastTableSize \<le> k \<Longrightarrow>
   identifierCharMap (buildIdentifierLookupTableFromUnicodeRangeTable table category False t) k
     = Some category"
proof (induction table arbitrary: t)
  case Nil
  then show ?case by (simp add: tableCovers_def)
next
  case (Cons entry rest)
  show ?case
  proof (cases "tableCovers rest k")
    case True
    then show ?thesis using Cons by (simp add: Let_def)
  next
    case False
    with Cons.prems have "entryCovers entry k" by (simp add: tableCovers_def)
    with False Cons.prems(2) show ?thesis
      by (simp add: Let_def map_build_not_covered map_fillRange entryCovers_def)
  qed
qed

lemma init_fold_setCategory:
  "identifierCharMapInitialized (fold (setCategory category) xs t) = identifierCharMapInitialized t"
  by (induction xs arbitrary: t) (auto simp: setCategory_def)

lemma init_build_table:
  "identifierCharMapInitialized
     (buildIdentifierLookupTableFromUnicodeRangeTable table category fto t)
     = identifierCharMapInitialized t"
  by (induction table arbitrary: t) (auto simp: Let_def fillRange_def init_fold_setCategory)

lemma map_fillFastTable [simp]: "identifierCharMap (fillFastTable t) = identifierCharMap t"
  by (simp add: fillFastTable_def)

lemma special_fast_only:
  "identifierCharMap
     (buildIdentifierLookupTableFromUnicodeRangeTable specialIdentifierChars IdentifierChar True t)
     0x1369 = identifierCharMap t 0x1369"
  by (simp add: specialIdentifierChars_def Let_def map_fillRange identifierCharFastTableSize_def)

lemma special_start_not_covered: "\<not> tableCovers specialStartIdentifierChars 0x1369"
  by (simp add: tableCovers_def specialStartIdentifierChars_def entryCovers_def Char_defs)

lemma special_covered: "tableCovers specialIdentifierChars 0x1369"
  by (simp add: tableCovers_def specialIdentifierChars_def entryCovers_def)

theorem isIdentifierChar_before_first_start_query:
  assumes "list_all (\<lambda>table. \<not> tableCovers table 0x1369) (unicodeCategoryTables u)"
  shows "isIdentifierChar (moduleLoaded u) 0x1369 = False
         \<and> isIdentifierChar (snd (isIdentifierStartChar u (moduleLoaded u) 0x1369)) 0x1369 = True"
proof -
  from assms have nc:
    "\<not> tableCovers (unicodeLu u) 0x1369" "\<not> tableCovers (unicodeLl u) 0x1369"
    "\<not> tableCovers (unicodeLt u) 0x1369" "\<not> tableCovers (unicodeLo u) 0x1369"
    "\<not> tableCovers (unicodeLm u) 0x1369" "\<not> tableCovers (unicodeNl u) 0x1369"
    "\<not> tableCovers (unicodeMn u) 0x1369" "\<not> tableCovers (unicodeMc u) 0x1369"
    "\<not> tableCovers (unicodeNd u) 0x1369" "\<not> tableCovers (unicodePc u) 0x1369"
    by (simp_all add: unicodeCategoryTables_def)
  have loaded: "identifierCharMap (moduleLoaded u) 0x1369 = None"
    unfolding moduleLoaded_def buildIdentifierLookupTable_def
      startIdentifierCharRanges_def identifierCharRanges_def
    by (simp add: map_build_not_covered nc special_start_not_covered special_fast_only)
  have uninit: "\<not> identifierCharMapInitialized (moduleLoaded u)"
    unfolding moduleLoaded_def buildIdentifierLookupTable_def
      startIdentifierCharRanges_def identifierCharRanges_def
    by (simp add: init_build_table fillFastTable_def)
  have full: "identifierCharMap (buildIdentifierLookupTable u False (moduleLoaded u)) 0x1369
                = Some IdentifierChar"
    unfolding buildIdentifierLookupTable_def
      startIdentifierCharRanges_def identifierCharRanges_def
    by (simp add: map_build_not_covered nc special_start_not_covered
          map_build_full_covered [OF special_covered] identifierCharFastTableSize_def)
  show ?thesis
    using loaded uninit full
    by (simp add: isIdentifierChar_def isIdentifierStartChar_def identifierCharFastTableSize_def)
qed

theorem isIdentifierChar_before_first_start_query_witness:
  "isIdentifierChar (moduleLoaded sampleUnicodeTables) 0x1369 = False
   \<and> isIdentifierChar (snd (isIdentifierStartChar sampleUnicodeTables
        (moduleLoaded sampleUnicodeTables) 0x1369)) 0x1369 = True"
  by (rule isIdentifierChar_before_first_start_query)
     (simp add: unicodeCategoryTables_def sampleUnicodeTables_def tableCovers_def entryCovers_def)

section \<open>Properties of the main scanner\<close>

subsection \<open>Invariants of the token loop\<close>


lemma scan_invariant:
  "(\<And>s pos st. P st \<Longrightarrow> P (snd (handleCharacter cl s pos st))) \<Longrightarrow> P st
   \<Longrightarrow> P (scan cl s pos st)"
proof (induction cl s pos st rule: scan.induct)
  case (1 cl pos st)
  then show ?case by simp
next
  case (2 cl c cs pos st)
  show ?case
  proof (cases "isWhiteSpace c")
    case True
    with 2 show ?thesis by simp
  next
    case False
    obtain n st' where h: "handleCharacter cl (c # cs) pos st = (n, st')"
      by (cases "handleCharacter cl (c # cs) pos st")
    have "P st'"
      using "2.prems"(1) [OF "2.prems"(2), of "c # cs" pos] h by simp
    with "2.IH"(2) [OF False h [symmetric] refl "2.prems"(1)] False h show ?thesis
      by simp
  qed
qed

lemma emittedKinds_pushToken [simp]:
  "emittedKinds (pushToken k pos n st) = emittedKinds st @ [k]"
  by (simp add: emittedKinds_def pushToken_def)

lemma emittedKinds_update [simp]:
  "emittedKinds (st\<lparr>indentAmounts := stack\<rparr>) = emittedKinds st"
  "emittedKinds (st\<lparr>parenDepth := d\<rparr>) = emittedKinds st"
  by (simp_all add: emittedKinds_def)

lemma parenDepth_pushToken [simp]: "parenDepth (pushToken k pos n st) = parenDepth st"
  by (simp add: pushToken_def)

lemma indentAmounts_pushToken [simp]: "indentAmounts (pushToken k pos n st) = indentAmounts st"
  by (simp add: pushToken_def)

lemma emittedKinds_pushDedents [simp]:
  "emittedKinds (pushDedents ds pos st) = emittedKinds st @ map (\<lambda>(amt, matches). Dedent amt matches) ds"
  unfolding pushDedents_def
  by (induction ds arbitrary: st) (auto simp: case_prod_beta)

lemma parenDepth_pushDedents [simp]: "parenDepth (pushDedents ds pos st) = parenDepth st"
  unfolding pushDedents_def
  by (induction ds arbitrary: st) (auto simp: case_prod_beta)

lemma indentAmounts_pushDedents [simp]:
  "indentAmounts (pushDedents ds pos st) = indentAmounts st"
  unfolding pushDedents_def
  by (induction ds arbitrary: st) (auto simp: case_prod_beta)

text \<open>What \<open>setIndent\<close> emits: nothing, one Indent, or the Dedent tokens.\<close>

lemma setIndent_cases:
  obtains (same) "setIndent pos amt st = st"
  | (indent) level rest where "parenDepth st = 0" "indentAmounts st = level # rest" "level < amt"
      "setIndent pos amt st = pushToken (Indent amt) pos 0 (st\<lparr>indentAmounts := amt # level # rest\<rparr>)"
  | (dedent) level rest ds stack where "parenDepth st = 0" "indentAmounts st = level # rest"
      "amt < level" "dedentTokens amt (level # rest) = (ds, stack)"
      "setIndent pos amt st = pushDedents ds pos (st\<lparr>indentAmounts := stack\<rparr>)"
proof (cases "0 < parenDepth st")
  case True
  then show ?thesis using same by (simp add: setIndent_def)
next
  case False
  show ?thesis
  proof (cases "indentAmounts st")
    case Nil
    with False show ?thesis using same by (simp add: setIndent_def)
  next
    case (Cons level rest)
    consider "level = amt" | "level < amt" | "amt < level" by linarith
    then show ?thesis
    proof cases
      case 1
      with False Cons show ?thesis using same by (simp add: setIndent_def)
    next
      case 2
      with False Cons show ?thesis using indent [of level rest] by (simp add: setIndent_def)
    next
      case 3
      obtain ds stack where d: "dedentTokens amt (level # rest) = (ds, stack)"
        by (cases "dedentTokens amt (level # rest)")
      with 3 False Cons show ?thesis
        using dedent [of level rest ds stack] by (simp add: setIndent_def)
    qed
  qed
qed


lemma adjustParenDepth_eq:
  "adjustParenDepth k d =
     (if isOpenBracket k then d + 1 else if isCloseBracket k then d - 1 else d)"
  by (simp add: adjustParenDepth_def isOpenBracket_def isCloseBracket_def)

lemma indent_not_bracket [simp]:
  "isIndent k \<Longrightarrow> isOpenBracket k = False" "isIndent k \<Longrightarrow> isCloseBracket k = False"
  "isDedent k \<Longrightarrow> isOpenBracket k = False" "isDedent k \<Longrightarrow> isCloseBracket k = False"
  by (auto simp: isIndent_def isDedent_def isOpenBracket_def isCloseBracket_def)

lemma bracketDepth_append:
  "bracketDepth d (xs @ ys) = bracketDepth (bracketDepth d xs) ys"
  by (induction xs arbitrary: d) auto

lemma indentsOutsideBrackets_append:
  "indentsOutsideBrackets d (xs @ ys) =
     (indentsOutsideBrackets d xs \<and> indentsOutsideBrackets (bracketDepth d xs) ys)"
  by (induction xs arbitrary: d) auto




subsection \<open>The kinds the scanners emit\<close>

lemma matchOperator_kind: "matchOperator m s = Some (k, n) \<Longrightarrow> \<exists>op. k = Operator op"
  by (auto simp: matchOperator_def split: if_splits option.splits)

lemma tryPunctuation_kind: "tryPunctuation s = Some (k, n) \<Longrightarrow> \<not> isLayoutKind k"
  by (auto simp: tryPunctuation_def punctuationTable_def isLayoutKind_def
      split: list.splits option.splits if_splits dest!: matchOperator_kind)

lemma tryNumber_kind: "tryNumber s = Some (k, n) \<Longrightarrow> \<not> isLayoutKind k"
  by (auto simp: tryNumber_def tryRadixNumber_def tryDecimalNumber_def Let_def isLayoutKind_def
      split: list.splits option.splits if_splits)

lemma tryString_kind: "tryString s = Some (k, n) \<Longrightarrow> \<not> isLayoutKind k"
  by (auto simp: tryString_def scanString_def Let_def isLayoutKind_def
      split: option.splits prod.splits)

lemma tryDotOrArrow_kind: "tryDotOrArrow s = Some (k, n) \<Longrightarrow> \<not> isLayoutKind k"
  by (auto simp: tryDotOrArrow_def isLayoutKind_def split: list.splits if_splits)

lemma tryIdentifier_kind: "tryIdentifier cl s = Some (k, n) \<Longrightarrow> \<not> isLayoutKind k"
  by (auto simp: tryIdentifier_def Let_def isLayoutKind_def
      split: list.splits option.splits if_splits)

lemma tryOperator_kind: "tryOperator s = Some (k, n) \<Longrightarrow> \<not> isLayoutKind k"
  by (auto simp: tryOperator_def isLayoutKind_def split: option.splits dest!: matchOperator_kind)

lemma scanToken_kind: "\<not> isLayoutKind (fst (scanToken cl s))"
proof (cases "firstSome [tryPunctuation s, tryNumber s, tryString s, tryDotOrArrow s,
                tryIdentifier cl s, tryOperator s]")
  case None
  then show ?thesis by (simp add: scanToken_def isLayoutKind_def)
next
  case (Some r)
  obtain k n where r: "r = (k, n)" by (cases r)
  from firstSome_cases [OF Some] have "\<not> isLayoutKind k"
    unfolding r
    by (auto dest: tryPunctuation_kind [OF sym] tryNumber_kind [OF sym]
        tryString_kind [OF sym] tryDotOrArrow_kind [OF sym]
        tryIdentifier_kind [OF sym] tryOperator_kind [OF sym])
  with Some r show ?thesis by (simp add: scanToken_def)
qed

subsection \<open>The shape of a step\<close>

lemma handleNewLine_cases:
  assumes "handleNewLine m t s pos st = (n, st')"
  obtains st1 p amt where
    "st1 = st \<or> (parenDepth st = 0 \<and> st1 = pushToken (NewLine t) pos m st)"
    "st' = st1 \<or> st' = setIndent p amt st1"
  using assms
  by (auto simp: handleNewLine_def readIndentationAfterNewline_def Let_def
      split: if_splits list.splits)

lemma handleCharacter_cases:
  assumes "handleCharacter cl s pos st = (n, st')"
  obtains (skip) "emittedKinds st' = emittedKinds st" "parenDepth st' = parenDepth st"
      "indentAmounts st' = indentAmounts st"
  | (token) k m where "\<not> isLayoutKind k"
      "st' = pushToken k pos m (st\<lparr>parenDepth := adjustParenDepth k (parenDepth st)\<rparr>)"
  | (newline) t m st1 p amt where "t \<noteq> Implied"
      "st1 = st \<or> (parenDepth st = 0 \<and> st1 = pushToken (NewLine t) pos m st)"
      "st' = st1 \<or> st' = setIndent p amt st1"
proof (cases s)
  case Nil
  with assms show ?thesis using skip by (simp add: handleCharacter_def)
next
  case (Cons c cs)
  consider (cr) "c = Char_CarriageReturn"
    | (lf) "c \<noteq> Char_CarriageReturn" "c = Char_LineFeed"
    | (bs) "c \<noteq> Char_CarriageReturn" "c \<noteq> Char_LineFeed" "c = Char_Backslash"
    | (hash) "c \<noteq> Char_CarriageReturn" "c \<noteq> Char_LineFeed" "c \<noteq> Char_Backslash"
        "c = Char_Hash"
    | (other) "c \<noteq> Char_CarriageReturn" "c \<noteq> Char_LineFeed" "c \<noteq> Char_Backslash"
        "c \<noteq> Char_Hash"
    by blast
  then show ?thesis
  proof cases
    case cr
    show ?thesis
    proof (cases "take 1 cs = [Char_LineFeed]")
      case True
      with assms Cons cr have "handleNewLine 2 CarriageReturnLineFeed s pos st = (n, st')"
        by (simp add: handleCharacter_def)
      then show ?thesis
        by (rule handleNewLine_cases) (rule newline [of CarriageReturnLineFeed], simp_all)
    next
      case False
      with assms Cons cr have "handleNewLine 1 CarriageReturn s pos st = (n, st')"
        by (simp add: handleCharacter_def)
      then show ?thesis
        by (rule handleNewLine_cases) (rule newline [of CarriageReturn], simp_all)
    qed
  next
    case lf
    with assms Cons have "handleNewLine 1 LineFeed s pos st = (n, st')"
      by (simp add: handleCharacter_def)
    then show ?thesis
      by (rule handleNewLine_cases) (rule newline [of LineFeed], simp_all)
  next
    case bs
    with assms Cons have h: "handleBackslash s pos st = (n, st')"
      by (simp add: handleCharacter_def)
    show ?thesis
    proof (cases "st' = st")
      case True
      then show ?thesis using skip by simp
    next
      case False
      with h have "st' = pushToken Invalid pos (invalidTokenLength s) st"
        by (auto simp: handleBackslash_def split: if_splits)
      then show ?thesis
        using token [of Invalid "invalidTokenLength s"]
        by (simp add: isLayoutKind_def adjustParenDepth_def)
    qed
  next
    case hash
    with assms Cons have "handleComment s pos st = (n, st')"
      by (simp add: handleCharacter_def)
    then show ?thesis
      using skip by (auto simp: handleComment_def Let_def emittedKinds_def)
  next
    case other
    obtain k m where km: "scanToken cl s = (k, m)" by (cases "scanToken cl s")
    with assms Cons other have
      "st' = pushToken k pos m (st\<lparr>parenDepth := adjustParenDepth k (parenDepth st)\<rparr>)"
      by (auto simp: handleCharacter_def)
    moreover have "\<not> isLayoutKind k"
      using scanToken_kind [of cl s] km by simp
    ultimately show ?thesis using token by blast
  qed
qed

text \<open>What \<open>setIndent\<close> emits, and that it leaves the bracket depth alone.\<close>

lemma emitted_pushToken:
  "emitted (pushToken k pos n st)
     = emitted st @ [\<lparr>start = pos, tlength = n, comments = pendingComments st, kind = k\<rparr>]"
  by (simp add: pushToken_def)

lemma emitted_pushDedents:
  "\<exists>ts. emitted (pushDedents ds pos st) = emitted st @ ts
        \<and> map kind ts = map (\<lambda>(amt, matches). Dedent amt matches) ds"
proof (induction ds arbitrary: st)
  case Nil
  then show ?case by (simp add: pushDedents_def)
next
  case (Cons d ds)
  obtain amt matches where d: "d = (amt, matches)" by (cases d)
  have step: "pushDedents (d # ds) pos st
                = pushDedents ds pos (pushToken (Dedent amt matches) pos 0 st)"
    by (simp add: pushDedents_def d)
  from Cons [of "pushToken (Dedent amt matches) pos 0 st"]
  obtain ts where ts:
    "emitted (pushDedents ds pos (pushToken (Dedent amt matches) pos 0 st))
       = emitted (pushToken (Dedent amt matches) pos 0 st) @ ts"
    "map kind ts = map (\<lambda>(amt, matches). Dedent amt matches) ds"
    by blast
  show ?case
    unfolding step ts(1) emitted_pushToken
    by (rule exI [of _ "\<lparr>start = pos, tlength = 0, comments = pendingComments st,
          kind = Dedent amt matches\<rparr> # ts"]) (simp add: ts(2) d)
qed

lemma setIndent_emitted:
  obtains ts where "emitted (setIndent pos amt st) = emitted st @ ts"
    "list_all (\<lambda>t. isIndent (kind t) \<or> isDedent (kind t)) ts"
    "ts = [] \<or> parenDepth st = 0"
    "amt = 0 \<Longrightarrow> list_all (\<lambda>t. isDedent (kind t)) ts"
proof (cases pos amt st rule: setIndent_cases)
  case same
  then show ?thesis using that [of "[]"] by simp
next
  case (indent level rest)
  then show ?thesis
    using that [of "[\<lparr>start = pos, tlength = 0, comments = pendingComments st,
          kind = Indent amt\<rparr>]"]
    by (simp add: isIndent_def pushToken_def)
next
  case (dedent level rest ds stack)
  from emitted_pushDedents [of ds pos "st\<lparr>indentAmounts := stack\<rparr>"]
  obtain ts where ts: "emitted (pushDedents ds pos (st\<lparr>indentAmounts := stack\<rparr>)) = emitted st @ ts"
    "map kind ts = map (\<lambda>(amt, matches). Dedent amt matches) ds"
    by auto
  have "list_all (\<lambda>k. isDedent k) (map kind ts)"
    unfolding ts(2) by (simp add: list_all_iff isDedent_def case_prod_beta)
  then have "list_all (\<lambda>t. isDedent (kind t)) ts"
    by (simp add: list_all_iff)
  with dedent ts show ?thesis
    using that [of ts] by (simp add: list_all_iff)
qed

lemma setIndent_emits:
  obtains ks where "emittedKinds (setIndent pos amt st) = emittedKinds st @ ks"
    "list_all (\<lambda>k. isIndent k \<or> isDedent k) ks"
    "ks = [] \<or> parenDepth st = 0"
proof -
  obtain ts where ts: "emitted (setIndent pos amt st) = emitted st @ ts"
    "list_all (\<lambda>t. isIndent (kind t) \<or> isDedent (kind t)) ts"
    "ts = [] \<or> parenDepth st = 0"
    by (rule setIndent_emitted)
  show ?thesis
    using ts that [of "map kind ts"] by (simp add: emittedKinds_def list_all_iff)
qed

lemma parenDepth_setIndent [simp]: "parenDepth (setIndent pos amt st) = parenDepth st"
  by (cases pos amt st rule: setIndent_cases) simp_all


subsection \<open>The end of the stream\<close>

lemma layout_kinds [simp]:
  "\<not> isLayoutKind k \<Longrightarrow> k \<noteq> EndOfStream"
  "\<not> isLayoutKind k \<Longrightarrow> k \<noteq> NewLine t"
  "\<not> isLayoutKind k \<Longrightarrow> \<not> isIndent k"
  "\<not> isLayoutKind k \<Longrightarrow> \<not> isDedent k"
  by (cases k; simp add: isLayoutKind_def isIndent_def isDedent_def)+

lemma indent_dedent_simps [simp]:
  "isIndent EndOfStream = False" "isDedent EndOfStream = False"
  "isIndent (NewLine t) = False" "isDedent (NewLine t) = False"
  "isIndent (Indent amt) = True" "isDedent (Dedent amt matches) = True"
  "isIndent (Dedent amt matches) = False" "isDedent (Indent amt) = False"
  "isNewLine (NewLine t) = True" "isNewLine EndOfStream = False"
  by (simp_all add: isIndent_def isDedent_def isNewLine_def)

lemma indent_dedent_kinds:
  "isIndent k \<or> isDedent k \<Longrightarrow> k \<noteq> EndOfStream \<and> k \<noteq> NewLine t"
  by (cases k; simp add: isIndent_def isDedent_def)







lemma parenInput_kinds:
  "kinds (tokenize asciiClassifier parenInput) =
     [Identifier (codes ''test''), OpenParenthesis, Identifier (codes ''i1''), CloseParenthesis,
      NewLine LineFeed, Indent 2, Identifier (codes ''foo''), NewLine Implied, Dedent 0 True,
      EndOfStream]"
  by code_simp




subsection \<open>Indentation and brackets\<close>

lemma bracketDepth_indents:
  "list_all (\<lambda>k. isIndent k \<or> isDedent k) ks \<Longrightarrow> bracketDepth d ks = d"
  by (induction ks) auto

lemma indentsOutsideBrackets_indents:
  "list_all (\<lambda>k. isIndent k \<or> isDedent k) ks \<Longrightarrow> indentsOutsideBrackets 0 ks"
  by (induction ks) auto

lemma newline_not_bracket [simp]:
  "isOpenBracket (NewLine t) = False" "isCloseBracket (NewLine t) = False"
  "isOpenBracket EndOfStream = False" "isCloseBracket EndOfStream = False"
  by (simp_all add: isOpenBracket_def isCloseBracket_def)

text \<open>The scanner's bracket depth is the number of unmatched opening brackets of the
  stream, and no Indent or Dedent was emitted inside brackets.\<close>

definition bracketInvariant :: "ScannerState \<Rightarrow> bool" where
  "bracketInvariant st =
     (bracketDepth 0 (emittedKinds st) = parenDepth st
      \<and> indentsOutsideBrackets 0 (emittedKinds st))"

lemma setIndent_bracketInvariant:
  assumes "bracketInvariant st"
  shows "bracketInvariant (setIndent pos amt st)"
proof -
  obtain ks where ks: "emittedKinds (setIndent pos amt st) = emittedKinds st @ ks"
    "list_all (\<lambda>k. isIndent k \<or> isDedent k) ks" "ks = [] \<or> parenDepth st = 0"
    by (rule setIndent_emits)
  show ?thesis
  proof (cases "ks = []")
    case True
    with ks(1) assms show ?thesis by (simp add: bracketInvariant_def)
  next
    case False
    with ks(3) have "parenDepth st = 0" by simp
    with ks(1,2) assms show ?thesis
      by (simp add: bracketInvariant_def bracketDepth_append indentsOutsideBrackets_append
          bracketDepth_indents indentsOutsideBrackets_indents)
  qed
qed

lemma pushToken_bracketInvariant:
  assumes "bracketInvariant st" and "\<not> isIndent k" and "\<not> isDedent k"
  shows "bracketInvariant (pushToken k pos n (st\<lparr>parenDepth := adjustParenDepth k (parenDepth st)\<rparr>))"
  using assms
  by (simp add: bracketInvariant_def bracketDepth_append indentsOutsideBrackets_append
      adjustParenDepth_eq)

lemma handleCharacter_bracketInvariant:
  assumes "bracketInvariant st"
  shows "bracketInvariant (snd (handleCharacter cl s pos st))"
proof -
  obtain n st' where h: "handleCharacter cl s pos st = (n, st')"
    by (cases "handleCharacter cl s pos st")
  from h have "bracketInvariant st'"
  proof (cases rule: handleCharacter_cases)
    case skip
    with assms show ?thesis by (simp add: bracketInvariant_def)
  next
    case (token k m)
    with assms show ?thesis by (simp add: pushToken_bracketInvariant)
  next
    case (newline t m st1 p amt)
    have "bracketInvariant st1"
    proof (cases "st1 = st")
      case True
      with assms show ?thesis by simp
    next
      case False
      with newline(2) have "st1 = pushToken (NewLine t) pos m st" by simp
      with assms show ?thesis
        by (simp add: bracketInvariant_def bracketDepth_append indentsOutsideBrackets_append)
    qed
    with newline(3) show ?thesis
      by (auto simp: setIndent_bracketInvariant)
  qed
  with h show ?thesis by simp
qed

lemma finish_bracketInvariant:
  assumes "bracketInvariant st"
  shows "indentsOutsideBrackets 0 (emittedKinds (finish pos st))"
proof -
  define st1 where
    "st1 = (if lastIsNewLine (emitted st) then st else pushToken (NewLine Implied) pos 0 st)"
  have "bracketInvariant st1"
    using assms
    by (simp add: st1_def bracketInvariant_def bracketDepth_append indentsOutsideBrackets_append)
  then have "bracketInvariant (setIndent pos 0 st1)"
    by (rule setIndent_bracketInvariant)
  then show ?thesis
    by (simp add: finish_def Let_def st1_def [symmetric] bracketInvariant_def
        indentsOutsideBrackets_append)
qed

text \<open>
  C4: in every token stream the Indent and Dedent tokens stand where the bracket depth
  is 0. For the input of the unit test 'IndentDedentParen' nothing is emitted for the
  indentation between the parentheses; after the closing parenthesis and the NewLine
  an Indent stands before \<open>foo\<close>, and a Dedent before EndOfStream.
\<close>

theorem indents_only_outside_brackets:
  "indentsOutsideBrackets 0 (kinds (tokenize cl s))
   \<and> kinds (tokenize asciiClassifier parenInput) =
       [Identifier (codes ''test''), OpenParenthesis, Identifier (codes ''i1''),
        CloseParenthesis, NewLine LineFeed, Indent 2, Identifier (codes ''foo''),
        NewLine Implied, Dedent 0 True, EndOfStream]"
proof -
  have "bracketInvariant (scan cl s 0 initialState)"
    by (rule scan_invariant) (erule handleCharacter_bracketInvariant,
        simp add: bracketInvariant_def emittedKinds_def initialState_def)
  then have "indentsOutsideBrackets 0 (emittedKinds (finish (length s) (scan cl s 0 initialState)))"
    by (rule finish_bracketInvariant)
  then have "indentsOutsideBrackets 0 (kinds (tokenize cl s))"
    by (simp add: kinds_def tokenize_def emittedKinds_def)
  then show ?thesis
    by (intro conjI parenInput_kinds)
qed

subsection \<open>The indent stack\<close>




lemma ordinary_replay [simp]:
  "\<not> isIndent k \<Longrightarrow> \<not> isDedent k \<Longrightarrow> indentStackAfter stack [k] = stack"
  "\<not> isIndent k \<Longrightarrow> \<not> isDedent k \<Longrightarrow> dedentsSatisfy R stack [k]"
  by simp_all









subsection \<open>Tab expansion\<close>



end
